theory Spec2Isabelle
  imports Main
begin

section \<open>Data: webhook events, search results, outbound messages\<close>

text \<open>
  The relay is an Express application. The sources hold it in two variants: the
  self-contained module \<^verbatim>\<open>src/app.js\<close>, which defines the send functions and the
  signature check itself, and a variant of the same module that delegates them to
  \<^verbatim>\<open>fb/fb-lib\<close> and dispatches on four tags. Both are embedded here; the constants of
  the second variant carry the suffix \<open>_fb\<close>.

  A JavaScript object with optional properties is a record whose fields are options:
  \<open>None\<close> is \<^verbatim>\<open>undefined\<close>. The ids of sender and recipient are present in every
  event of the platform, so \<^verbatim>\<open>event.sender.id\<close> is a plain field. Fields that the code
  reads only to print them are kept where they make an object non-empty.
\<close>

type_synonym psid = string

record quick_reply =
  qr_payload :: "string option"

record message =
  is_echo :: "bool option"
  mid :: "string option"
  quick_reply :: "quick_reply option"
  msg_text :: "string option"

record delivery =
  mids :: "string list option"

record postback =
  pb_payload :: string

record optin =
  optin_ref :: "string option"

record read_receipt =
  read_watermark :: nat

record account_linking =
  al_status :: "string option"

record messaging_event =
  sender_id :: psid
  recipient_id :: psid
  ev_optin :: "optin option"
  ev_message :: "message option"
  ev_delivery :: "delivery option"
  ev_postback :: "postback option"
  ev_read :: "read_receipt option"
  ev_account_linking :: "account_linking option"

record page_entry =
  messaging :: "messaging_event list"

record webhook_body =
  object :: string
  entry :: "page_entry list"

text \<open>What the search collaborator \<^verbatim>\<open>bot.js\<close> hands to its callback.\<close>

record image_result =
  ir_id :: "string option"
  ir_image :: "string option"
  ir_label :: "string option"
  ir_description :: "string option"
  ir_collection :: "string option"
  ir_url :: "string option"
  ir_author :: "string option"

record button_spec =
  bs_title :: string
  bs_payload :: "string option"

record buttons =
  bt_text :: string
  bt_data :: "button_spec list"

record search_result =
  sr_type :: string
  sr_buttons :: "buttons option"
  sr_images :: "image_result option"
  sr_text :: "string option"

text \<open>The JSON bodies given to \<^verbatim>\<open>callSendAPI\<close>.\<close>

datatype button =
    Postback_button string "string option"
  | Web_url_button string string

datatype message_body =
    Text_message "string option" string
  | Image_attachment string
  | Button_template string "button list"

datatype message_data =
    Message psid message_body
  | Sender_action psid string

text \<open>
  Closures are first-order data: a timer callback is a \<open>task\<close>, a completion callback
  of the search collaborator is a \<open>callback\<close>; each holds the variables it captured.
\<close>

datatype task =
    Social_feedback psid
  | Wikidata_link psid image_result
  | Collection_followup psid image_result

datatype callback =
    HandleSearchResponse psid
  | PaintingsCallback psid

datatype bot_call =
    PainterByDate "string option" "string option"
  | GetMonuments
  | RandomArtist
  | SearchPainters string
  | PaintingsByArtist string

text \<open>Calls into the module \<^verbatim>\<open>fb/fb-lib\<close>, which the second variant uses.\<close>

datatype fb_call =
    Fb_sendTextMessage psid "string option"
  | Fb_sendImageMessage psid "string option"
  | Fb_sendURL psid string
  | Fb_sendButtonMessage psid "buttons option"
  | Fb_sendTypingOn psid
  | Fb_sendTypingOff psid
  | Fb_receivedDeliveryConfirmation messaging_event
  | Fb_receivedMessageRead messaging_event

datatype error = TypeError | Error string

datatype dump =
    Dump_message "message option"
  | Dump_result "search_result option"
  | Dump_images image_result
  | Dump_event messaging_event

text \<open>
  A handler is its trace: the effects it performs, in program order. \<open>Console_log\<close> and
  \<open>Console_error\<close> carry the format string of the call (its first argument),
  \<open>Console_dump\<close> the value that is printed where the call has no format string.
  \<open>Throw\<close> ends a trace: nothing of the handler runs after it.
\<close>

datatype effect =
    Console_log string
  | Console_error string
  | Console_dump dump
  | Call_send_api message_data
  | Set_timeout task nat
  | Bot bot_call callback
  | Fb fb_call
  | Send_status nat
  | Throw error

section \<open>JavaScript primitives\<close>

text \<open>
  Sequencing of two traces: the second runs only when the first did not throw.
  \<open>for_each\<close> is \<^verbatim>\<open>Array.prototype.forEach\<close> with a callback that returns a trace.
\<close>

fun then_do :: "effect list \<Rightarrow> effect list \<Rightarrow> effect list" where
  "then_do [] ys = ys"
| "then_do (Throw e # xs) ys = [Throw e]"
| "then_do (x # xs) ys = x # then_do xs ys"

fun for_each :: "('a \<Rightarrow> effect list) \<Rightarrow> 'a list \<Rightarrow> effect list" where
  "for_each f [] = []"
| "for_each f (x # xs) = then_do (f x) (for_each f xs)"

text \<open>Truthiness of a string-or-undefined, a boolean-or-undefined, an object-or-undefined.\<close>

definition truthy_str :: "string option \<Rightarrow> bool" where
  "truthy_str v = (case v of None \<Rightarrow> False | Some s \<Rightarrow> s \<noteq> [])"

definition truthy_bool :: "bool option \<Rightarrow> bool" where
  "truthy_bool v = (case v of None \<Rightarrow> False | Some b \<Rightarrow> b)"

definition truthy_obj :: "'a option \<Rightarrow> bool" where
  "truthy_obj v = (case v of None \<Rightarrow> False | Some _ \<Rightarrow> True)"

text \<open>A value inside a template literal: \<^verbatim>\<open>`${v}`\<close>.\<close>

definition tpl :: "string option \<Rightarrow> string" where
  "tpl v = (case v of None \<Rightarrow> ''undefined'' | Some s \<Rightarrow> s)"

text \<open>
  A \<open>char\<close> stands for the UTF-16 code unit of the same number, so the texts of the
  model are the strings over U+0000 to U+00FF (Basic Latin and Latin-1 Supplement). On
  them \<^verbatim>\<open>String.prototype.trim\<close> and \<^verbatim>\<open>toLowerCase\<close> are as ECMAScript defines them.

  \<^verbatim>\<open>trim\<close> removes white space and line terminators from both ends: in this range
  tab, line feed, vertical tab, form feed, carriage return, space and the no-break
  space U+00A0.

  \<^verbatim>\<open>toLowerCase\<close> maps each upper-case letter to the code unit 32 above it: in this
  range \<open>A\<close> to \<open>Z\<close>, and U+00C0 to U+00DE without the multiplication sign U+00D7.
  Every other code unit of the range is left as it is.
\<close>

definition is_space :: "char \<Rightarrow> bool" where
  "is_space c =
     (c \<in> set [CHR 0x09, CHR 0x0A, CHR 0x0B, CHR 0x0C, CHR 0x0D, CHR '' '', CHR 0xA0])"

definition trim :: "string \<Rightarrow> string" where
  "trim s = rev (dropWhile is_space (rev (dropWhile is_space s)))"

definition upper_letters :: string where
  "upper_letters =
     ''ABCDEFGHIJKLMNOPQRSTUVWXYZ'' @
     [CHR 0xC0, CHR 0xC1, CHR 0xC2, CHR 0xC3, CHR 0xC4, CHR 0xC5, CHR 0xC6, CHR 0xC7,
      CHR 0xC8, CHR 0xC9, CHR 0xCA, CHR 0xCB, CHR 0xCC, CHR 0xCD, CHR 0xCE, CHR 0xCF,
      CHR 0xD0, CHR 0xD1, CHR 0xD2, CHR 0xD3, CHR 0xD4, CHR 0xD5, CHR 0xD6, CHR 0xD8,
      CHR 0xD9, CHR 0xDA, CHR 0xDB, CHR 0xDC, CHR 0xDD, CHR 0xDE]"

definition lower_letters :: string where
  "lower_letters =
     ''abcdefghijklmnopqrstuvwxyz'' @
     [CHR 0xE0, CHR 0xE1, CHR 0xE2, CHR 0xE3, CHR 0xE4, CHR 0xE5, CHR 0xE6, CHR 0xE7,
      CHR 0xE8, CHR 0xE9, CHR 0xEA, CHR 0xEB, CHR 0xEC, CHR 0xED, CHR 0xEE, CHR 0xEF,
      CHR 0xF0, CHR 0xF1, CHR 0xF2, CHR 0xF3, CHR 0xF4, CHR 0xF5, CHR 0xF6, CHR 0xF8,
      CHR 0xF9, CHR 0xFA, CHR 0xFB, CHR 0xFC, CHR 0xFD, CHR 0xFE]"

definition lower_char :: "char \<Rightarrow> char" where
  "lower_char c =
     (case map_of (zip upper_letters lower_letters) c of
        None \<Rightarrow> c
      | Some l \<Rightarrow> l)"

definition toLowerCase :: "string \<Rightarrow> string" where
  "toLowerCase s = map lower_char s"

text \<open>\<^verbatim>\<open>s.split(c)\<close> for a one-character separator, and \<^verbatim>\<open>xs[i]\<close> on an array.\<close>

fun split :: "char \<Rightarrow> string \<Rightarrow> string list" where
  "split c [] = [[]]"
| "split c (x # xs) =
     (if x = c then [] # split c xs
      else (case split c xs of [] \<Rightarrow> [[x]] | y # ys \<Rightarrow> (x # y) # ys))"

definition js_nth :: "'a list \<Rightarrow> nat \<Rightarrow> 'a option" where
  "js_nth xs i = (if i < length xs then Some (xs ! i) else None)"

text \<open>A non-negative integer inside a template literal, in decimal.\<close>

definition digit :: "nat \<Rightarrow> char" where
  "digit n = ''0123456789'' ! (n mod 10)"

fun show_nat :: "nat \<Rightarrow> string" where
  "show_nat n = (if n < 10 then [digit n] else show_nat (n div 10) @ [digit n])"

definition show_int :: "int \<Rightarrow> string" where
  "show_int i = (if i < 0 then CHR ''-'' # show_nat (nat (- i)) else show_nat (nat i))"

section \<open>The self-contained module\<close>

subsection \<open>Send functions\<close>

definition callSendAPI :: "message_data \<Rightarrow> effect list" where
  "callSendAPI messageData = [Call_send_api messageData]"

definition sendTextMessage :: "psid \<Rightarrow> string option \<Rightarrow> effect list" where
  "sendTextMessage recipientId messageText =
     callSendAPI (Message recipientId (Text_message messageText ''DEVELOPER_DEFINED_METADATA''))"

text \<open>The statements after the \<^verbatim>\<open>return\<close> of \<^verbatim>\<open>sendImageMessage\<close> are dead code.\<close>

definition sendImageMessage :: "psid \<Rightarrow> string option \<Rightarrow> effect list" where
  "sendImageMessage recipientId url =
     (let url' = tpl url @ ''?width=800'' in
        callSendAPI (Message recipientId (Image_attachment url'))
        @ [Set_timeout (Social_feedback recipientId) 4000])"

definition sendButtonMessage :: "psid \<Rightarrow> buttons option \<Rightarrow> effect list" where
  "sendButtonMessage recipientId btns =
     (case btns of
        None \<Rightarrow> [Throw TypeError]
      | Some b \<Rightarrow>
          callSendAPI (Message recipientId
            (Button_template (bt_text b)
               (map (\<lambda>b. Postback_button (bs_title b) (bs_payload b)) (bt_data b)))))"

definition sendURL :: "psid \<Rightarrow> string \<Rightarrow> effect list" where
  "sendURL recId url =
     callSendAPI (Message recId
       (Button_template ''Wil je meer weten?'' [Web_url_button url ''Lees verder'']))"

definition sendTypingOn :: "psid \<Rightarrow> effect list" where
  "sendTypingOn recipientId =
     Console_log ''Turning typing indicator on''
     # callSendAPI (Sender_action recipientId ''typing_on'')"

definition sendTypingOff :: "psid \<Rightarrow> effect list" where
  "sendTypingOff recipientId =
     Console_log ''Turning typing indicator off''
     # callSendAPI (Sender_action recipientId ''typing_off'')"

subsection \<open>Timer callbacks\<close>

text \<open>
  \<^verbatim>\<open>_.random(lower, upper)\<close> belongs to the library lodash: it is the parameter
  \<open>random\<close>, a function of the two bounds and the state \<open>g\<close> of the generator, which
  it returns updated. The two numbers of the social feedback come from two successive
  calls.
\<close>

definition wikidata_url :: "image_result \<Rightarrow> string" where
  "wikidata_url images = ''http://www.wikidata.org/wiki/'' @ tpl (ir_id images)"

definition social_feedback_text :: "int \<Rightarrow> int \<Rightarrow> string" where
  "social_feedback_text a b =
     show_int a @ '' mensen zagen deze afbeelding ook, '' @ show_int b
     @ '' mensen kijken op dit moment''"

definition run_task :: "(int \<Rightarrow> int \<Rightarrow> 'g \<Rightarrow> int \<times> 'g) \<Rightarrow> 'g \<Rightarrow> task \<Rightarrow> effect list \<times> 'g" where
  "run_task random g t =
     (case t of
        Social_feedback recipientId \<Rightarrow>
          (let (a, g1) = random 8 50 g; (b, g2) = random 2 4 g1
           in (sendTextMessage recipientId (Some (social_feedback_text a b)), g2))
      | Wikidata_link senderID images \<Rightarrow>
          (sendURL senderID (wikidata_url images), g)
      | Collection_followup senderID images \<Rightarrow>
          (let moreUrl = (if truthy_str (ir_url images) then tpl (ir_url images)
                          else wikidata_url images)
           in (then_do
                 (sendTextMessage senderID
                    (Some (''Dit kun je trouwens zien in de collectie van ''
                           @ tpl (ir_collection images))))
                 (then_do (sendURL senderID moreUrl)
                    (sendButtonMessage senderID
                       (Some \<lparr>bt_text = ''Nog een werk van deze schilder?'',
                              bt_data = [\<lparr>bs_title = ''Ja, leuk!'',
                                          bs_payload = ir_author images\<rparr>]\<rparr>))), g)))"

text \<open>
  What lodash documents of \<^verbatim>\<open>_.random\<close>: the number lies between the bounds, both
  inclusive.
\<close>

definition lodash_contract :: "(int \<Rightarrow> int \<Rightarrow> 'g \<Rightarrow> int \<times> 'g) \<Rightarrow> bool" where
  "lodash_contract random =
     (\<forall>lower upper g. lower \<le> upper \<longrightarrow>
        lower \<le> fst (random lower upper g) \<and> fst (random lower upper g) \<le> upper)"

subsection \<open>Completion callbacks of the search collaborator\<close>

definition caption :: "image_result \<Rightarrow> string" where
  "caption images =
     ''Je gaat zo zien: '' @ tpl (ir_label images) @ '', '' @ tpl (ir_description images)"

definition handleSearchResponse :: "psid \<Rightarrow> string option \<Rightarrow> search_result option \<Rightarrow> effect list" where
  "handleSearchResponse senderID err data =
     then_do (sendTypingOff senderID)
       (if truthy_str err then sendTextMessage senderID err
        else Console_dump (Dump_result data) #
          (case data of
             None \<Rightarrow> [Throw TypeError]
           | Some d \<Rightarrow>
               then_do
                 (if sr_type d = ''buttons'' then sendButtonMessage senderID (sr_buttons d)
                  else [])
                 (then_do
                    (if sr_type d = ''images'' then
                       (case sr_images d of
                          None \<Rightarrow> [Throw TypeError]
                        | Some images \<Rightarrow>
                            sendTextMessage senderID (Some (caption images))
                            @ sendImageMessage senderID (ir_image images)
                            @ [Set_timeout (Wikidata_link senderID images) 3000])
                     else [])
                    (if sr_type d = ''text'' then sendTextMessage senderID (sr_text d)
                     else []))))"

text \<open>The arrow function that \<^verbatim>\<open>receivedPostback\<close> passes to \<^verbatim>\<open>bot.paintingsByArtist\<close>.\<close>

definition paintingsCallback :: "psid \<Rightarrow> string option \<Rightarrow> search_result option \<Rightarrow> effect list" where
  "paintingsCallback senderID err data =
     (if truthy_str err then
        sendTextMessage senderID (Some (''Er ging iets mis: '' @ tpl err))
      else
        (case data of
           None \<Rightarrow> [Throw TypeError]
         | Some d \<Rightarrow>
             if sr_type d = ''images'' then
               (case sr_images d of
                  None \<Rightarrow> [Throw TypeError]
                | Some images \<Rightarrow>
                    sendTextMessage senderID (Some (caption images))
                    @ sendImageMessage senderID (ir_image images)
                    @ [Console_dump (Dump_images images)]
                    @ (if truthy_str (ir_collection images)
                       then [Set_timeout (Collection_followup senderID images) 5000]
                       else []))
             else []))"

definition run_callback :: "callback \<Rightarrow> string option \<Rightarrow> search_result option \<Rightarrow> effect list" where
  "run_callback cb err data =
     (case cb of
        HandleSearchResponse senderID \<Rightarrow> handleSearchResponse senderID err data
      | PaintingsCallback senderID \<Rightarrow> paintingsCallback senderID err data)"

subsection \<open>Event handlers\<close>

definition receivedAuthentication :: "messaging_event \<Rightarrow> effect list" where
  "receivedAuthentication event =
     (let senderID = sender_id event in
        case ev_optin event of
          None \<Rightarrow> [Throw TypeError]
        | Some _ \<Rightarrow>
            Console_log
              ''Received authentication for user %d and page %d with pass through param '%s' at %d''
            # sendTextMessage senderID (Some ''Authentication successful''))"

definition receivedMessage :: "messaging_event \<Rightarrow> effect list" where
  "receivedMessage event =
     (let senderID = sender_id event in
      [Console_log ''Received message for user %d and page %d at %d with message:'',
       Console_dump (Dump_message (ev_message event))]
      @ (case ev_message event of
           None \<Rightarrow> [Throw TypeError]
         | Some message \<Rightarrow>
             if truthy_bool (is_echo message) then
               [Console_log ''Received echo for message %s and app %d with metadata %s'']
             else if truthy_obj (quick_reply message) then
               Console_log ''Quick reply for message %s with payload %s''
               # sendTextMessage senderID (Some ''Quick reply tapped'')
             else
               (case msg_text message of
                  None \<Rightarrow> sendTextMessage senderID (Some ''Sorry, dit snap ik even niet.'')
                | Some messageText \<Rightarrow>
                    if messageText = [] then
                      sendTextMessage senderID (Some ''Sorry, dit snap ik even niet.'')
                    else
                      (let parsedMsg = toLowerCase (trim messageText) in
                         sendTextMessage senderID
                           (Some ''Ik ben nu aan het zoeken, een momentje...'')
                         @ sendTypingOn senderID
                         @ (if CHR ''-'' \<in> set parsedMsg then
                              (let dates = split (CHR ''-'') parsedMsg in
                                 [Bot (PainterByDate (js_nth dates 1) (js_nth dates 0))
                                    (HandleSearchResponse senderID)])
                            else if parsedMsg = ''utrecht'' then
                              [Bot GetMonuments (HandleSearchResponse senderID)]
                            else if parsedMsg = ''surprise'' then
                              [Bot RandomArtist (HandleSearchResponse senderID)]
                            else
                              [Bot (SearchPainters parsedMsg)
                                 (HandleSearchResponse senderID)])))))"

definition receivedDeliveryConfirmation :: "messaging_event \<Rightarrow> effect list" where
  "receivedDeliveryConfirmation event =
     (case ev_delivery event of
        None \<Rightarrow> [Throw TypeError]
      | Some delivery \<Rightarrow>
          (case mids delivery of
             None \<Rightarrow> []
           | Some messageIDs \<Rightarrow>
               map (\<lambda>messageID. Console_log ''Received delivery confirmation for message ID: %s'')
                 messageIDs)
          @ [Console_log ''All message before %d were delivered.''])"

definition receivedPostback :: "messaging_event \<Rightarrow> effect list" where
  "receivedPostback event =
     (let senderID = sender_id event in
        case ev_postback event of
          None \<Rightarrow> [Throw TypeError]
        | Some pb \<Rightarrow>
            [Bot (PaintingsByArtist (pb_payload pb)) (PaintingsCallback senderID),
             Console_log ''Received postback for user %d and page %d with payload '%s' at %d'']
            @ sendTextMessage senderID (Some ''Ik ben nu een schilderij aan het ophalen...''))"

definition receivedMessageRead :: "messaging_event \<Rightarrow> effect list" where
  "receivedMessageRead event =
     (case ev_read event of
        None \<Rightarrow> [Throw TypeError]
      | Some _ \<Rightarrow>
          [Console_log ''Received message read event for watermark %d and sequence number %d''])"

definition receivedAccountLink :: "messaging_event \<Rightarrow> effect list" where
  "receivedAccountLink event =
     (case ev_account_linking event of
        None \<Rightarrow> [Throw TypeError]
      | Some _ \<Rightarrow>
          [Console_log ''Received account link event with for user %d with status %s and auth code %s ''])"

subsection \<open>The webhook\<close>

text \<open>The callback of \<^verbatim>\<open>pageEntry.messaging.forEach\<close>.\<close>

definition dispatch :: "messaging_event \<Rightarrow> effect list" where
  "dispatch messagingEvent =
     (if truthy_obj (ev_optin messagingEvent) then receivedAuthentication messagingEvent
      else if truthy_obj (ev_message messagingEvent) then receivedMessage messagingEvent
      else if truthy_obj (ev_delivery messagingEvent) then
        receivedDeliveryConfirmation messagingEvent
      else if truthy_obj (ev_postback messagingEvent) then receivedPostback messagingEvent
      else if truthy_obj (ev_read messagingEvent) then receivedMessageRead messagingEvent
      else if truthy_obj (ev_account_linking messagingEvent) then
        receivedAccountLink messagingEvent
      else [Console_log ''Webhook received unknown messagingEvent: ''])"

text \<open>The handler of \<^verbatim>\<open>POST /webhook\<close>, on the parsed body.\<close>

definition post_webhook :: "webhook_body \<Rightarrow> effect list" where
  "post_webhook data =
     (if object data = ''page'' then
        then_do
          (for_each (\<lambda>pageEntry. for_each dispatch (messaging pageEntry)) (entry data))
          [Send_status 200]
      else [])"

subsection \<open>Signature verification\<close>

text \<open>
  \<^verbatim>\<open>crypto.createHmac('sha1', APP_SECRET).update(buf).digest()\<close> belongs to Node: it is
  the parameter \<open>hmac_sha1\<close>, from the secret and the raw body to the bytes of the
  digest. \<^verbatim>\<open>digest('hex')\<close> writes each byte as two lower-case hexadecimal digits.
\<close>

definition hex_digit :: "nat \<Rightarrow> char" where
  "hex_digit n = ''0123456789abcdef'' ! (n mod 16)"

definition hex :: "char list \<Rightarrow> string" where
  "hex bytes = concat (map (\<lambda>b. [hex_digit (of_char b div 16), hex_digit (of_char b)]) bytes)"

definition verifyRequestSignature ::
  "(string \<Rightarrow> string \<Rightarrow> char list) \<Rightarrow> string \<Rightarrow> string option \<Rightarrow> string \<Rightarrow> effect list" where
  "verifyRequestSignature hmac_sha1 APP_SECRET signature buf =
     (case signature of
        None \<Rightarrow> [Console_error ''Couldn't validate the signature.'']
      | Some sig \<Rightarrow>
          if sig = [] then [Console_error ''Couldn't validate the signature.'']
          else
            (let elements = split (CHR ''='') sig;
                 signatureHash = js_nth elements 1;
                 expectedHash = hex (hmac_sha1 APP_SECRET buf)
             in if signatureHash \<noteq> Some expectedHash
                then [Throw (Error ''Couldn't validate the request signature.'')]
                else []))"

section \<open>The variant on top of fb-lib\<close>

text \<open>
  Every send is a call into \<^verbatim>\<open>fb/fb-lib\<close>, recorded as an \<open>Fb\<close> effect with its
  arguments; what the library does with it is outside this module.
\<close>

definition sendDelayedRandomizedSocialFeedback :: "psid \<Rightarrow> effect list" where
  "sendDelayedRandomizedSocialFeedback recipientId =
     [Set_timeout (Social_feedback recipientId) 4000]"

definition run_task_fb :: "(int \<Rightarrow> int \<Rightarrow> 'g \<Rightarrow> int \<times> 'g) \<Rightarrow> 'g \<Rightarrow> task \<Rightarrow> effect list \<times> 'g" where
  "run_task_fb random g t =
     (case t of
        Social_feedback recipientId \<Rightarrow>
          (let (a, g1) = random 8 50 g; (b, g2) = random 2 4 g1
           in ([Fb (Fb_sendTextMessage recipientId (Some (social_feedback_text a b)))], g2))
      | Wikidata_link senderID images \<Rightarrow>
          ([Fb (Fb_sendURL senderID (wikidata_url images))], g)
      | Collection_followup senderID images \<Rightarrow>
          (let moreUrl = (if truthy_str (ir_url images) then tpl (ir_url images)
                          else wikidata_url images)
           in ([Fb (Fb_sendTextMessage senderID
                      (Some (''Dit kun je trouwens zien in de collectie van ''
                             @ tpl (ir_collection images)))),
                Fb (Fb_sendURL senderID moreUrl),
                Fb (Fb_sendButtonMessage senderID
                      (Some \<lparr>bt_text = ''Nog een werk van deze schilder?'',
                             bt_data = [\<lparr>bs_title = ''Ja, leuk!'',
                                         bs_payload = ir_author images\<rparr>]\<rparr>))], g)))"

definition handleSearchResponse_fb :: "psid \<Rightarrow> string option \<Rightarrow> search_result option \<Rightarrow> effect list" where
  "handleSearchResponse_fb senderID err data =
     Fb (Fb_sendTypingOff senderID) #
       (if truthy_str err then [Fb (Fb_sendTextMessage senderID err)]
        else Console_dump (Dump_result data) #
          (case data of
             None \<Rightarrow> [Throw TypeError]
           | Some d \<Rightarrow>
               then_do
                 (if sr_type d = ''buttons'' then [Fb (Fb_sendButtonMessage senderID (sr_buttons d))]
                  else [])
                 (then_do
                    (if sr_type d = ''images'' then
                       (case sr_images d of
                          None \<Rightarrow> [Throw TypeError]
                        | Some images \<Rightarrow>
                            [Fb (Fb_sendTextMessage senderID (Some (caption images))),
                             Fb (Fb_sendImageMessage senderID (ir_image images)),
                             Set_timeout (Wikidata_link senderID images) 3000]
                            @ sendDelayedRandomizedSocialFeedback senderID)
                     else [])
                    (if sr_type d = ''text'' then [Fb (Fb_sendTextMessage senderID (sr_text d))]
                     else []))))"

definition paintingsCallback_fb :: "psid \<Rightarrow> string option \<Rightarrow> search_result option \<Rightarrow> effect list" where
  "paintingsCallback_fb senderID err data =
     (if truthy_str err then
        [Fb (Fb_sendTextMessage senderID (Some (''Er ging iets mis: '' @ tpl err)))]
      else
        (case data of
           None \<Rightarrow> [Throw TypeError]
         | Some d \<Rightarrow>
             if sr_type d = ''images'' then
               (case sr_images d of
                  None \<Rightarrow> [Throw TypeError]
                | Some images \<Rightarrow>
                    [Fb (Fb_sendTextMessage senderID (Some (caption images))),
                     Fb (Fb_sendImageMessage senderID (ir_image images))]
                    @ sendDelayedRandomizedSocialFeedback senderID
                    @ [Console_dump (Dump_images images)]
                    @ (if truthy_str (ir_collection images)
                       then [Set_timeout (Collection_followup senderID images) 5000]
                       else []))
             else []))"

definition run_callback_fb :: "callback \<Rightarrow> string option \<Rightarrow> search_result option \<Rightarrow> effect list" where
  "run_callback_fb cb err data =
     (case cb of
        HandleSearchResponse senderID \<Rightarrow> handleSearchResponse_fb senderID err data
      | PaintingsCallback senderID \<Rightarrow> paintingsCallback_fb senderID err data)"

definition receivedMessage_fb :: "messaging_event \<Rightarrow> effect list" where
  "receivedMessage_fb event =
     (let senderID = sender_id event in
      [Console_log ''Received message for user %d and page %d at %d with message:'',
       Console_dump (Dump_message (ev_message event))]
      @ (case ev_message event of
           None \<Rightarrow> [Throw TypeError]
         | Some message \<Rightarrow>
             if truthy_bool (is_echo message) then
               [Console_log ''Received echo for message %s and app %d with metadata %s'']
             else if truthy_obj (quick_reply message) then
               [Console_log ''Quick reply for message %s with payload %s'',
                Fb (Fb_sendTextMessage senderID (Some ''Quick reply tapped''))]
             else
               (case msg_text message of
                  None \<Rightarrow>
                    [Fb (Fb_sendTextMessage senderID (Some ''Sorry, dit snap ik even niet.''))]
                | Some messageText \<Rightarrow>
                    if messageText = [] then
                      [Fb (Fb_sendTextMessage senderID (Some ''Sorry, dit snap ik even niet.''))]
                    else
                      (let parsedMsg = toLowerCase (trim messageText) in
                         [Fb (Fb_sendTextMessage senderID
                                (Some ''Ik ben nu aan het zoeken, een momentje...'')),
                          Fb (Fb_sendTypingOn senderID)]
                         @ (if CHR ''-'' \<in> set parsedMsg then
                              (let dates = split (CHR ''-'') parsedMsg in
                                 [Bot (PainterByDate (js_nth dates 1) (js_nth dates 0))
                                    (HandleSearchResponse senderID)])
                            else if parsedMsg = ''utrecht'' then
                              [Bot GetMonuments (HandleSearchResponse senderID)]
                            else if parsedMsg = ''surprise'' then
                              [Bot RandomArtist (HandleSearchResponse senderID)]
                            else
                              [Bot (SearchPainters parsedMsg)
                                 (HandleSearchResponse senderID)])))))"

definition receivedPostback_fb :: "messaging_event \<Rightarrow> effect list" where
  "receivedPostback_fb event =
     (let senderID = sender_id event in
        case ev_postback event of
          None \<Rightarrow> [Throw TypeError]
        | Some pb \<Rightarrow>
            [Bot (PaintingsByArtist (pb_payload pb)) (PaintingsCallback senderID),
             Console_log ''Received postback for user %d and page %d with payload '%s' at %d'',
             Fb (Fb_sendTextMessage senderID
                   (Some ''Ik ben nu een schilderij aan het ophalen...''))])"

definition dispatch_fb :: "messaging_event \<Rightarrow> effect list" where
  "dispatch_fb messagingEvent =
     (if truthy_obj (ev_message messagingEvent) then receivedMessage_fb messagingEvent
      else if truthy_obj (ev_delivery messagingEvent) then
        [Fb (Fb_receivedDeliveryConfirmation messagingEvent)]
      else if truthy_obj (ev_postback messagingEvent) then receivedPostback_fb messagingEvent
      else if truthy_obj (ev_read messagingEvent) then
        [Fb (Fb_receivedMessageRead messagingEvent)]
      else [Console_log ''Webhook received unimplemented messagingEvent: ''])"

definition post_webhook_fb :: "webhook_body \<Rightarrow> effect list" where
  "post_webhook_fb data =
     (if object data = ''page'' then
        then_do
          (for_each (\<lambda>pageEntry. for_each dispatch_fb (messaging pageEntry)) (entry data))
          [Send_status 200]
      else [])"

section \<open>Observations on traces\<close>

fun sends :: "effect list \<Rightarrow> message_data list" where
  "sends [] = []"
| "sends (Call_send_api m # es) = m # sends es"
| "sends (e # es) = sends es"

fun fb_calls :: "effect list \<Rightarrow> fb_call list" where
  "fb_calls [] = []"
| "fb_calls (Fb c # es) = c # fb_calls es"
| "fb_calls (e # es) = fb_calls es"

fun timers :: "effect list \<Rightarrow> (task \<times> nat) list" where
  "timers [] = []"
| "timers (Set_timeout t ms # es) = (t, ms) # timers es"
| "timers (e # es) = timers es"

fun bot_calls :: "effect list \<Rightarrow> (bot_call \<times> callback) list" where
  "bot_calls [] = []"
| "bot_calls (Bot c cb # es) = (c, cb) # bot_calls es"
| "bot_calls (e # es) = bot_calls es"

fun responses :: "effect list \<Rightarrow> nat list" where
  "responses [] = []"
| "responses (Send_status n # es) = n # responses es"
| "responses (e # es) = responses es"

fun threw :: "effect list \<Rightarrow> bool" where
  "threw [] = False"
| "threw (Throw e # es) = True"
| "threw (e # es) = threw es"

text \<open>The URLs of the image attachments that a trace sends.\<close>

fun image_urls :: "effect list \<Rightarrow> string list" where
  "image_urls [] = []"
| "image_urls (Call_send_api (Message r (Image_attachment u)) # es) = u # image_urls es"
| "image_urls (e # es) = image_urls es"

text \<open>The events of a body, in the order in which the two nested loops visit them.\<close>

definition all_events :: "webhook_body \<Rightarrow> messaging_event list" where
  "all_events data = concat (map messaging (entry data))"

section \<open>The dispatcher as a first match over a list of tags\<close>

datatype tag = T_optin | T_message | T_delivery | T_postback | T_read | T_account_linking

definition has_tag :: "tag \<Rightarrow> messaging_event \<Rightarrow> bool" where
  "has_tag t e =
     (case t of
        T_optin \<Rightarrow> truthy_obj (ev_optin e)
      | T_message \<Rightarrow> truthy_obj (ev_message e)
      | T_delivery \<Rightarrow> truthy_obj (ev_delivery e)
      | T_postback \<Rightarrow> truthy_obj (ev_postback e)
      | T_read \<Rightarrow> truthy_obj (ev_read e)
      | T_account_linking \<Rightarrow> truthy_obj (ev_account_linking e))"

definition handler :: "tag \<Rightarrow> messaging_event \<Rightarrow> effect list" where
  "handler t =
     (case t of
        T_optin \<Rightarrow> receivedAuthentication
      | T_message \<Rightarrow> receivedMessage
      | T_delivery \<Rightarrow> receivedDeliveryConfirmation
      | T_postback \<Rightarrow> receivedPostback
      | T_read \<Rightarrow> receivedMessageRead
      | T_account_linking \<Rightarrow> receivedAccountLink)"

definition unknown_event :: "effect list" where
  "unknown_event = [Console_log ''Webhook received unknown messagingEvent: '']"

definition unimplemented_event :: "effect list" where
  "unimplemented_event = [Console_log ''Webhook received unimplemented messagingEvent: '']"

text \<open>
  The second variant has handlers for four tags; an event with only one of the other
  two reaches the final \<^verbatim>\<open>else\<close>.
\<close>

definition handler_fb :: "tag \<Rightarrow> messaging_event \<Rightarrow> effect list" where
  "handler_fb t e =
     (case t of
        T_message \<Rightarrow> receivedMessage_fb e
      | T_delivery \<Rightarrow> [Fb (Fb_receivedDeliveryConfirmation e)]
      | T_postback \<Rightarrow> receivedPostback_fb e
      | T_read \<Rightarrow> [Fb (Fb_receivedMessageRead e)]
      | T_optin \<Rightarrow> unimplemented_event
      | T_account_linking \<Rightarrow> unimplemented_event)"

definition first_match ::
  "tag list \<Rightarrow> (tag \<Rightarrow> messaging_event \<Rightarrow> effect list) \<Rightarrow> effect list \<Rightarrow> messaging_event \<Rightarrow> effect list" where
  "first_match order h otherwise e =
     (case find (\<lambda>t. has_tag t e) order of None \<Rightarrow> otherwise | Some t \<Rightarrow> h t e)"

text \<open>
  The dispatcher as the specification words it: the tags are tried in the order
  message, postback, delivery, read, optin, account link, and the handler of the first
  tag that is present runs.
\<close>

definition spec_order :: "tag list" where
  "spec_order = [T_message, T_postback, T_delivery, T_read, T_optin, T_account_linking]"

definition spec_dispatch :: "messaging_event \<Rightarrow> effect list" where
  "spec_dispatch e = first_match spec_order handler unknown_event e"

section \<open>A request from arrival to the completion of its searches\<close>

text \<open>
  Modelled from the spec: the search collaborator \<^verbatim>\<open>bot.js\<close> is not among the sources;
  by its contract each of its functions "invokes \<^verbatim>\<open>cb(error, SearchResult)\<close> exactly
  once, asynchronously". So a callback runs after the handler of the request has run to
  its end, with whatever \<open>answer\<close> the collaborator has for the call.
\<close>

definition complete ::
  "(bot_call \<Rightarrow> string option \<times> search_result option) \<Rightarrow> effect \<Rightarrow> effect list" where
  "complete answer e =
     (case e of
        Bot c cb \<Rightarrow> (let (err, data) = answer c in run_callback cb err data)
      | _ \<Rightarrow> [])"

definition run_request ::
  "(bot_call \<Rightarrow> string option \<times> search_result option) \<Rightarrow> webhook_body \<Rightarrow> effect list" where
  "run_request answer data =
     (let sync = post_webhook data in sync @ concat (map (complete answer) sync))"

definition complete_fb ::
  "(bot_call \<Rightarrow> string option \<times> search_result option) \<Rightarrow> effect \<Rightarrow> effect list" where
  "complete_fb answer e =
     (case e of
        Bot c cb \<Rightarrow> (let (err, data) = answer c in run_callback_fb cb err data)
      | _ \<Rightarrow> [])"

definition run_request_fb ::
  "(bot_call \<Rightarrow> string option \<times> search_result option) \<Rightarrow> webhook_body \<Rightarrow> effect list" where
  "run_request_fb answer data =
     (let sync = post_webhook_fb data in sync @ concat (map (complete_fb answer) sync))"

section \<open>Example inputs\<close>

definition ev_delivery_postback :: messaging_event where
  "ev_delivery_postback =
     \<lparr>sender_id = ''u1'', recipient_id = ''p1'', ev_optin = None, ev_message = None,
      ev_delivery = Some \<lparr>mids = None\<rparr>, ev_postback = Some \<lparr>pb_payload = ''Q5598''\<rparr>,
      ev_read = None, ev_account_linking = None\<rparr>"

definition text_event :: "string \<Rightarrow> messaging_event" where
  "text_event t =
     \<lparr>sender_id = ''u1'', recipient_id = ''p1'', ev_optin = None,
      ev_message = Some \<lparr>is_echo = None, mid = Some ''m1'', quick_reply = None,
                          msg_text = Some t\<rparr>,
      ev_delivery = None, ev_postback = None, ev_read = None, ev_account_linking = None\<rparr>"

definition quick_reply_event :: "string \<Rightarrow> messaging_event" where
  "quick_reply_event t =
     \<lparr>sender_id = ''u1'', recipient_id = ''p1'', ev_optin = None,
      ev_message = Some \<lparr>is_echo = None, mid = Some ''m1'',
                          quick_reply = Some \<lparr>qr_payload = Some ''PICKED''\<rparr>,
                          msg_text = Some t\<rparr>,
      ev_delivery = None, ev_postback = None, ev_read = None, ev_account_linking = None\<rparr>"

definition echo_event :: "string \<Rightarrow> messaging_event" where
  "echo_event t =
     \<lparr>sender_id = ''u1'', recipient_id = ''p1'', ev_optin = None,
      ev_message = Some \<lparr>is_echo = Some True, mid = Some ''m1'', quick_reply = None,
                          msg_text = Some t\<rparr>,
      ev_delivery = None, ev_postback = None, ev_read = None, ev_account_linking = None\<rparr>"

definition images_result :: "image_result \<Rightarrow> search_result" where
  "images_result im = \<lparr>sr_type = ''images'', sr_buttons = None, sr_images = Some im, sr_text = None\<rparr>"

definition q42 :: image_result where
  "q42 = \<lparr>ir_id = Some ''Q42'', ir_image = Some ''http://x/y.png'', ir_label = Some ''L'',
          ir_description = Some ''D'', ir_collection = None, ir_url = None, ir_author = None\<rparr>"

definition nachtwacht :: image_result where
  "nachtwacht = \<lparr>ir_id = Some ''Q219831'', ir_image = Some ''http://x/n.jpg?download'',
          ir_label = Some ''De Nachtwacht'', ir_description = Some ''schilderij'',
          ir_collection = Some ''Rijksmuseum'', ir_url = None, ir_author = Some ''Q5598''\<rparr>"

definition counter_random :: "int \<Rightarrow> int \<Rightarrow> int \<Rightarrow> int \<times> int" where
  "counter_random lower upper g = (lower + g mod (upper - lower + 1), g + 1)"

definition page_body :: "string \<Rightarrow> webhook_body" where
  "page_body obj =
     \<lparr>object = obj,
      entry = [\<lparr>messaging = [text_event ''Rembrandt'']\<rparr>,
               \<lparr>messaging = [echo_event ''hallo'', ev_delivery_postback]\<rparr>]\<rparr>"

definition no_result :: "bot_call \<Rightarrow> string option \<times> search_result option" where
  "no_result c = (Some ''Geen resultaten'', None)"

section \<open>Properties\<close>

subsection \<open>Traces\<close>

lemma then_do_append: "\<not> threw xs \<Longrightarrow> then_do xs ys = xs @ ys"
  by (induction xs ys rule: then_do.induct) auto

lemma threw_append: "threw (xs @ ys) = (threw xs \<or> threw ys)"
  by (induction xs rule: threw.induct) auto

lemma for_each_concat:
  "(\<And>x. \<not> threw (f x)) \<Longrightarrow> for_each f xs = concat (map f xs)"
  by (induction xs) (auto simp: then_do_append)

lemma threw_concat: "(\<And>x. \<not> threw (f x)) \<Longrightarrow> \<not> threw (concat (map f xs))"
  by (induction xs) (auto simp: threw_append)

lemma sends_append: "sends (xs @ ys) = sends xs @ sends ys"
  by (induction xs rule: sends.induct) auto

lemma timers_append: "timers (xs @ ys) = timers xs @ timers ys"
  by (induction xs rule: timers.induct) auto

lemma bot_calls_append: "bot_calls (xs @ ys) = bot_calls xs @ bot_calls ys"
  by (induction xs rule: bot_calls.induct) auto

lemma fb_calls_append: "fb_calls (xs @ ys) = fb_calls xs @ fb_calls ys"
  by (induction xs rule: fb_calls.induct) auto

lemma responses_append: "responses (xs @ ys) = responses xs @ responses ys"
  by (induction xs rule: responses.induct) auto

lemmas send_defs = callSendAPI_def sendTextMessage_def sendImageMessage_def
  sendButtonMessage_def sendURL_def sendTypingOn_def sendTypingOff_def

lemma threw_map_log [simp]: "\<not> threw (map (\<lambda>x. Console_log s) xs)"
  by (induction xs) auto

lemma responses_map_log [simp]: "responses (map (\<lambda>x. Console_log s) xs) = []"
  by (induction xs) auto

lemma receivedMessage_no_throw: "ev_message e = Some m \<Longrightarrow> \<not> threw (receivedMessage e)"
  by (simp add: receivedMessage_def send_defs Let_def threw_append split: option.splits)

lemma dispatch_no_throw: "\<not> threw (dispatch e)"
  by (auto simp: dispatch_def truthy_obj_def receivedMessage_no_throw receivedAuthentication_def
      receivedDeliveryConfirmation_def receivedPostback_def receivedMessageRead_def
      receivedAccountLink_def send_defs threw_append Let_def split: option.splits)

text \<open>
  Claim C1, as amended. Each dispatcher tries the tags of an event in one fixed order
  and runs the handler of the first tag that is present, and no other: the self-contained
  module in the order optin, message, delivery, postback, read, account link (six
  handlers), the variant on fb-lib in the order message, delivery, postback, read
  (four handlers). An event with none of these tags is only logged.
\<close>

theorem dispatch_first_match:
  "dispatch e =
     first_match [T_optin, T_message, T_delivery, T_postback, T_read, T_account_linking]
       handler unknown_event e
   \<and> dispatch_fb e =
     first_match [T_message, T_delivery, T_postback, T_read] handler_fb unimplemented_event e"
  by (simp add: dispatch_def dispatch_fb_def first_match_def has_tag_def handler_def
      handler_fb_def unknown_event_def unimplemented_event_def)

text \<open>
  Claim C1 as stated fails: the specification puts postback before delivery. On an
  event that carries both tags the specified order runs the postback handler, which
  calls \<^verbatim>\<open>bot.paintingsByArtist\<close>; both variants run the delivery handler instead.
\<close>

theorem dispatch_spec_order_counterexample:
  "bot_calls (spec_dispatch ev_delivery_postback)
     = [(PaintingsByArtist ''Q5598'', PaintingsCallback ''u1'')]
   \<and> dispatch ev_delivery_postback = [Console_log ''All message before %d were delivered.'']
   \<and> dispatch_fb ev_delivery_postback = [Fb (Fb_receivedDeliveryConfirmation ev_delivery_postback)]
   \<and> dispatch ev_delivery_postback \<noteq> spec_dispatch ev_delivery_postback"
  by (simp add: ev_delivery_postback_def spec_dispatch_def spec_order_def first_match_def
      has_tag_def handler_def dispatch_def dispatch_fb_def truthy_obj_def
      receivedPostback_def receivedDeliveryConfirmation_def send_defs Let_def)

lemma split_not_Nil [simp]: "split c s \<noteq> []"
  by (induction s) (auto split: list.splits)

lemma split_no_sep: "c \<notin> set s \<Longrightarrow> split c s = [s]"
  by (induction s) auto

lemma hd_split: "hd (split c s) = takeWhile (\<lambda>x. x \<noteq> c) s"
  by (induction s) (auto split: list.splits)

lemma split_sep:
  "c \<in> set s \<Longrightarrow>
     split c s = takeWhile (\<lambda>x. x \<noteq> c) s # split c (tl (dropWhile (\<lambda>x. x \<noteq> c) s))"
  by (induction s) (auto split: list.splits)

lemma js_nth_split_0: "js_nth (split c s) 0 = Some (takeWhile (\<lambda>x. x \<noteq> c) s)"
  using hd_split [of c s] split_not_Nil [of c s]
  by (cases "split c s") (auto simp: js_nth_def)

lemma js_nth_split_1:
  "c \<in> set s \<Longrightarrow>
     js_nth (split c s) (Suc 0)
       = Some (takeWhile (\<lambda>x. x \<noteq> c) (tl (dropWhile (\<lambda>x. x \<noteq> c) s)))"
  using js_nth_split_0 [of c "tl (dropWhile (\<lambda>x. x \<noteq> c) s)"]
  by (simp add: split_sep js_nth_def split: if_splits)

lemma trim_Nil [simp]: "trim [] = []"
  by (simp add: trim_def)

lemma toLowerCase_Nil [simp]: "toLowerCase [] = []"
  by (simp add: toLowerCase_def)

text \<open>
  Claim C5, as amended. For every message that is not an echo and has no quick reply,
  whose text, trimmed and lower-cased as JavaScript does it, contains a hyphen, the
  handler makes exactly one search call: \<^verbatim>\<open>painterByDate\<close> with the second
  hyphen-separated token of the normalised text first and its first token second.
\<close>

theorem hyphen_painterByDate:
  assumes "ev_message e = Some m"
    and "\<not> truthy_bool (is_echo m)"
    and "\<not> truthy_obj (quick_reply m)"
    and "msg_text m = Some t"
    and "CHR ''-'' \<in> set (toLowerCase (trim t))"
  shows "bot_calls (receivedMessage e) =
           [(PainterByDate
               (Some (takeWhile (\<lambda>x. x \<noteq> CHR ''-'')
                        (tl (dropWhile (\<lambda>x. x \<noteq> CHR ''-'') (toLowerCase (trim t))))))
               (Some (takeWhile (\<lambda>x. x \<noteq> CHR ''-'') (toLowerCase (trim t)))),
             HandleSearchResponse (sender_id e))]
         \<and> bot_calls (receivedMessage_fb e) = bot_calls (receivedMessage e)"
proof -
  have "t \<noteq> []" using assms(5) by auto
  then show ?thesis
    using assms
    by (simp add: receivedMessage_def receivedMessage_fb_def Let_def send_defs
        js_nth_split_0 js_nth_split_1)
qed

lemmas string_prims = trim_def toLowerCase_def lower_char_def upper_letters_def
  lower_letters_def is_space_def
  truthy_str_def truthy_bool_def truthy_obj_def tpl_def

text \<open>
  The scenario of the specification: the text \<^verbatim>\<open>1990-2000\<close> gives
  \<^verbatim>\<open>painterByDate("2000", "1990", cb)\<close>. And a text outside ASCII: a no-break space,
  \<^verbatim>\<open>1990-\<close> and a capital E with acute accent (U+00C9) give the tokens \<^verbatim>\<open>1990\<close> and
  the small e with acute accent (U+00E9), swapped.
\<close>

theorem hyphen_painterByDate_witness:
  "bot_calls (receivedMessage (text_event ''1990-2000''))
     = [(PainterByDate (Some ''2000'') (Some ''1990''), HandleSearchResponse ''u1'')]
   \<and> bot_calls (receivedMessage_fb (text_event ''1990-2000''))
     = [(PainterByDate (Some ''2000'') (Some ''1990''), HandleSearchResponse ''u1'')]
   \<and> toLowerCase (trim ([CHR 0xA0] @ ''1990-'' @ [CHR 0xC9])) = ''1990-'' @ [CHR 0xE9]
   \<and> bot_calls (receivedMessage (text_event ([CHR 0xA0] @ ''1990-'' @ [CHR 0xC9])))
     = [(PainterByDate (Some [CHR 0xE9]) (Some ''1990''), HandleSearchResponse ''u1'')]"
  using hyphen_painterByDate [of "text_event ''1990-2000''"
      "\<lparr>is_echo = None, mid = Some ''m1'', quick_reply = None, msg_text = Some ''1990-2000''\<rparr>"
      "''1990-2000''"]
    hyphen_painterByDate [of "text_event ([CHR 0xA0] @ ''1990-'' @ [CHR 0xC9])"
      "\<lparr>is_echo = None, mid = Some ''m1'', quick_reply = None,
        msg_text = Some ([CHR 0xA0] @ ''1990-'' @ [CHR 0xC9])\<rparr>"
      "[CHR 0xA0] @ ''1990-'' @ [CHR 0xC9]"]
  by (simp add: text_event_def string_prims)

text \<open>
  Claim C5 as stated fails: a message with the text \<^verbatim>\<open>1990-2000\<close> that carries a
  quick reply is answered with "Quick reply tapped" and no search call is made.
\<close>

theorem hyphen_quick_reply_counterexample:
  "CHR ''-'' \<in> set (toLowerCase (trim ''1990-2000''))
   \<and> bot_calls (receivedMessage (quick_reply_event ''1990-2000'')) = []
   \<and> sends (receivedMessage (quick_reply_event ''1990-2000''))
       = [Message ''u1'' (Text_message (Some ''Quick reply tapped'') ''DEVELOPER_DEFINED_METADATA'')]
   \<and> bot_calls (receivedMessage_fb (quick_reply_event ''1990-2000'')) = []"
  by (simp add: quick_reply_event_def receivedMessage_def receivedMessage_fb_def send_defs
      string_prims)

text \<open>
  Which texts normalise to \<^verbatim>\<open>utrecht\<close>: the seven letters in any case, between any
  white space.
\<close>

lemma lower_space:
  assumes "is_space c"
  shows "lower_char c = c"
proof -
  have "lower_char (CHR 0x09) = CHR 0x09" "lower_char (CHR 0x0A) = CHR 0x0A"
    "lower_char (CHR 0x0B) = CHR 0x0B" "lower_char (CHR 0x0C) = CHR 0x0C"
    "lower_char (CHR 0x0D) = CHR 0x0D" "lower_char (CHR '' '') = CHR '' ''"
    "lower_char (CHR 0xA0) = CHR 0xA0"
    by (simp_all add: lower_char_def upper_letters_def lower_letters_def)
  with assms show ?thesis
    by (auto simp: is_space_def)
qed

lemma dropWhile_prefix:
  "list_all P ws \<Longrightarrow> dropWhile P (ws @ xs) = dropWhile P xs"
  by (induction ws) auto

lemma trim_padded:
  assumes "list_all is_space ws1" and "list_all is_space ws2"
    and "u \<noteq> []" and "\<not> is_space (hd u)" and "\<not> is_space (last u)"
  shows "trim (ws1 @ u @ ws2) = u"
proof -
  have a: "dropWhile is_space (ws1 @ u @ ws2) = u @ ws2"
    using assms(1,3,4) by (cases u) (simp_all add: dropWhile_prefix)
  have "list_all is_space (rev ws2)" using assms(2) by (simp add: list_all_iff)
  then have "dropWhile is_space (rev ws2 @ rev u) = dropWhile is_space (rev u)"
    by (rule dropWhile_prefix)
  also have "\<dots> = rev u"
    using assms(3,5) by (cases "rev u") (auto simp: last_rev hd_rev)
  finally show ?thesis
    by (simp add: trim_def a)
qed

lemma utrecht_any_case:
  assumes "list_all is_space ws1" and "list_all is_space ws2"
    and "toLowerCase u = ''utrecht''"
  shows "toLowerCase (trim (ws1 @ u @ ws2)) = ''utrecht''"
proof -
  have ne: "u \<noteq> []" using assms(3) by (auto simp: toLowerCase_def)
  have "lower_char (hd u) = CHR ''u''"
    using assms(3) ne by (cases u) (auto simp: toLowerCase_def)
  then have h: "\<not> is_space (hd u)"
    using lower_space [of "hd u"] by (auto simp: is_space_def)
  have "last (map lower_char u) = lower_char (last u)"
    using ne by (rule last_map)
  then have "lower_char (last u) = CHR ''t''"
    using assms(3) by (simp add: toLowerCase_def)
  then have l: "\<not> is_space (last u)"
    using lower_space [of "last u"] by (auto simp: is_space_def)
  show ?thesis
    using trim_padded [OF assms(1,2) ne h l] assms(3) by simp
qed

text \<open>
  Claim C9, as amended. For every message that is not an echo and has no quick reply,
  whose text, trimmed and lower-cased as JavaScript does it, equals \<^verbatim>\<open>utrecht\<close>, the
  handler makes exactly one search call: \<^verbatim>\<open>getMonuments\<close>.
\<close>

theorem utrecht_getMonuments:
  assumes "ev_message e = Some m"
    and "\<not> truthy_bool (is_echo m)"
    and "\<not> truthy_obj (quick_reply m)"
    and "msg_text m = Some t"
    and "toLowerCase (trim t) = ''utrecht''"
  shows "bot_calls (receivedMessage e) = [(GetMonuments, HandleSearchResponse (sender_id e))]
         \<and> bot_calls (receivedMessage_fb e) = [(GetMonuments, HandleSearchResponse (sender_id e))]"
proof -
  have "t \<noteq> []" using assms(5) by auto
  then show ?thesis
    using assms
    by (simp add: receivedMessage_def receivedMessage_fb_def Let_def send_defs)
qed

text \<open>
  Mixed case and surrounding white space, and the same between no-break spaces.
\<close>

theorem utrecht_getMonuments_witness:
  "toLowerCase (trim ''  UtrECHT '') = ''utrecht''
   \<and> bot_calls (receivedMessage (text_event ''  UtrECHT ''))
       = [(GetMonuments, HandleSearchResponse ''u1'')]
   \<and> bot_calls (receivedMessage_fb (text_event ''  UtrECHT ''))
       = [(GetMonuments, HandleSearchResponse ''u1'')]
   \<and> toLowerCase (trim ([CHR 0xA0] @ ''Utrecht'' @ [CHR 0xA0])) = ''utrecht''
   \<and> bot_calls (receivedMessage (text_event ([CHR 0xA0] @ ''Utrecht'' @ [CHR 0xA0])))
       = [(GetMonuments, HandleSearchResponse ''u1'')]"
proof -
  have norm: "toLowerCase (trim ''  UtrECHT '') = ''utrecht''"
    "toLowerCase (trim ([CHR 0xA0] @ ''Utrecht'' @ [CHR 0xA0])) = ''utrecht''"
    by (simp_all add: string_prims)
  show ?thesis
    using norm utrecht_getMonuments [of "text_event ''  UtrECHT ''"
      "\<lparr>is_echo = None, mid = Some ''m1'', quick_reply = None, msg_text = Some ''  UtrECHT ''\<rparr>"
      "''  UtrECHT ''"]
      utrecht_getMonuments [of "text_event ([CHR 0xA0] @ ''Utrecht'' @ [CHR 0xA0])"
      "\<lparr>is_echo = None, mid = Some ''m1'', quick_reply = None,
        msg_text = Some ([CHR 0xA0] @ ''Utrecht'' @ [CHR 0xA0])\<rparr>"
      "[CHR 0xA0] @ ''Utrecht'' @ [CHR 0xA0]"]
    by (simp add: text_event_def truthy_bool_def truthy_obj_def)
qed

text \<open>
  Claim C9 as stated fails: a message with the text \<^verbatim>\<open>Utrecht\<close> that carries a
  quick reply is answered with "Quick reply tapped" and \<^verbatim>\<open>getMonuments\<close> is not called.
\<close>

theorem utrecht_quick_reply_counterexample:
  "toLowerCase (trim ''Utrecht'') = ''utrecht''
   \<and> bot_calls (receivedMessage (quick_reply_event ''Utrecht'')) = []
   \<and> sends (receivedMessage (quick_reply_event ''Utrecht''))
       = [Message ''u1'' (Text_message (Some ''Quick reply tapped'') ''DEVELOPER_DEFINED_METADATA'')]
   \<and> bot_calls (receivedMessage_fb (quick_reply_event ''Utrecht'')) = []"
  by (simp add: quick_reply_event_def receivedMessage_def receivedMessage_fb_def send_defs
      string_prims)

text \<open>
  Claim C7. For every event whose message has \<^verbatim>\<open>is_echo = true\<close>, the message
  handler of either variant performs three log calls and nothing else: no send, no
  search call, no timer. The dispatcher of the variant on fb-lib always hands such an
  event to the message handler; the one of the self-contained module does so when the
  event has no optin tag, which it tests first.
\<close>

theorem echo_only_logged:
  assumes "ev_message e = Some m" and "is_echo m = Some True"
  shows "receivedMessage e =
           [Console_log ''Received message for user %d and page %d at %d with message:'',
            Console_dump (Dump_message (Some m)),
            Console_log ''Received echo for message %s and app %d with metadata %s'']
         \<and> sends (receivedMessage e) = []
         \<and> bot_calls (receivedMessage e) = []
         \<and> timers (receivedMessage e) = []
         \<and> receivedMessage_fb e = receivedMessage e
         \<and> dispatch_fb e = receivedMessage e
         \<and> (ev_optin e = None \<longrightarrow> dispatch e = receivedMessage e)"
  using assms
  by (simp add: receivedMessage_def receivedMessage_fb_def dispatch_def dispatch_fb_def
      truthy_bool_def truthy_obj_def)

text \<open>
  An echo of the text \<^verbatim>\<open>hallo\<close>.
\<close>

theorem echo_only_logged_witness:
  "sends (receivedMessage (echo_event ''hallo'')) = []
   \<and> bot_calls (receivedMessage (echo_event ''hallo'')) = []
   \<and> timers (receivedMessage (echo_event ''hallo'')) = []
   \<and> fb_calls (dispatch_fb (echo_event ''hallo'')) = []
   \<and> dispatch (echo_event ''hallo'') = receivedMessage (echo_event ''hallo'')"
  using echo_only_logged [of "echo_event ''hallo''"
      "\<lparr>is_echo = Some True, mid = Some ''m1'', quick_reply = None, msg_text = Some ''hallo''\<rparr>"]
  by (simp add: echo_event_def)

subsection \<open>Signature verification\<close>

lemma hex_digit_no_eq: "hex_digit n \<noteq> CHR ''=''"
proof -
  have "hex_digit n \<in> set ''0123456789abcdef''"
    unfolding hex_digit_def by (rule nth_mem) simp
  then show ?thesis by auto
qed

lemma hex_no_eq: "CHR ''='' \<notin> set (hex bytes)"
  by (induction bytes) (simp_all add: hex_def hex_digit_no_eq [symmetric])

lemma verify_sha1_header:
  assumes "CHR ''='' \<notin> set x"
  shows "verifyRequestSignature hmac_sha1 S (Some (''sha1='' @ x)) B
           = (if x \<noteq> hex (hmac_sha1 S B)
              then [Throw (Error ''Couldn't validate the request signature.'')] else [])"
proof -
  have "split (CHR ''='') (''sha1='' @ x) = [''sha1'', x]"
    using assms by (simp add: split_no_sep)
  then show ?thesis
    by (simp add: verifyRequestSignature_def js_nth_def)
qed

text \<open>
  Claim C3. With the secret \<open>S\<close> and the body \<open>B\<close>, a request whose header is
  \<^verbatim>\<open>sha1=\<close> followed by the hexadecimal HMAC of the body passes: nothing is thrown.
  A header \<^verbatim>\<open>sha1=x\<close> with any other digest \<open>x\<close> (a digest does not contain the
  separator \<^verbatim>\<open>=\<close>) throws the error "Couldn't validate the request signature.".
  Without the header the function logs an error and returns normally. In general the
  digest that is compared is the second of the pieces into which \<^verbatim>\<open>=\<close> splits the
  header.
\<close>

theorem signature_verification:
  "verifyRequestSignature hmac_sha1 S (Some (''sha1='' @ hex (hmac_sha1 S B))) B = []
   \<and> (CHR ''='' \<notin> set x \<and> x \<noteq> hex (hmac_sha1 S B) \<longrightarrow>
        verifyRequestSignature hmac_sha1 S (Some (''sha1='' @ x)) B
          = [Throw (Error ''Couldn't validate the request signature.'')])
   \<and> verifyRequestSignature hmac_sha1 S None B
        = [Console_error ''Couldn't validate the signature.'']
   \<and> (sig \<noteq> [] \<longrightarrow>
        verifyRequestSignature hmac_sha1 S (Some sig) B
          = (if js_nth (split (CHR ''='') sig) 1 = Some (hex (hmac_sha1 S B)) then []
             else [Throw (Error ''Couldn't validate the request signature.'')]))"
proof -
  have "verifyRequestSignature hmac_sha1 S (Some (''sha1='' @ hex (hmac_sha1 S B))) B = []"
    using verify_sha1_header [of "hex (hmac_sha1 S B)" hmac_sha1 S B] hex_no_eq by simp
  moreover have "verifyRequestSignature hmac_sha1 S None B
        = [Console_error ''Couldn't validate the signature.'']"
    by (simp add: verifyRequestSignature_def)
  moreover have "sig \<noteq> [] \<longrightarrow>
        verifyRequestSignature hmac_sha1 S (Some sig) B
          = (if js_nth (split (CHR ''='') sig) 1 = Some (hex (hmac_sha1 S B)) then []
             else [Throw (Error ''Couldn't validate the request signature.'')])"
    by (simp add: verifyRequestSignature_def)
  ultimately show ?thesis
    using verify_sha1_header [of x hmac_sha1 S B] by simp
qed

text \<open>
  A stand-in for the HMAC, the right digest, a wrong one, and no header.
\<close>

theorem signature_verification_witness:
  "hex (rev (''key'' @ ''hello'')) = ''6f6c6c656879656b''
   \<and> verifyRequestSignature (\<lambda>s b. rev (s @ b)) ''key'' (Some ''sha1=6f6c6c656879656b'') ''hello''
     = []
   \<and> verifyRequestSignature (\<lambda>s b. rev (s @ b)) ''key'' (Some ''sha1=6f6c6c6568796b65'') ''hello''
     = [Throw (Error ''Couldn't validate the request signature.'')]
   \<and> verifyRequestSignature (\<lambda>s b. rev (s @ b)) ''key'' None ''hello''
     = [Console_error ''Couldn't validate the signature.'']"
  using signature_verification [of "\<lambda>s b. rev (s @ b)" "''key''" "''hello''" "''6f6c6c6568796b65''"
      "''sha1=6f6c6c6568796b65''"]
  by (simp add: hex_def hex_digit_def)

subsection \<open>Completion callbacks\<close>

lemmas callback_defs = handleSearchResponse_def paintingsCallback_def
  handleSearchResponse_fb_def paintingsCallback_fb_def sendDelayedRandomizedSocialFeedback_def
  caption_def wikidata_url_def

text \<open>
  Claim C8. Whatever the completion of a search of the message path is, the first
  send of the callback is the sender action \<^verbatim>\<open>typing_off\<close>. When the completion is an
  error, the one other send is the error as a text message, and the callback returns
  normally: it throws nothing. The same holds of the calls into fb-lib in the
  second variant.
\<close>

theorem typing_off_first:
  "take 1 (sends (handleSearchResponse s err data)) = [Sender_action s ''typing_off'']
   \<and> take 1 (fb_calls (handleSearchResponse_fb s err data)) = [Fb_sendTypingOff s]
   \<and> (truthy_str err \<longrightarrow>
        sends (handleSearchResponse s err data)
          = [Sender_action s ''typing_off'',
             Message s (Text_message err ''DEVELOPER_DEFINED_METADATA'')]
        \<and> \<not> threw (handleSearchResponse s err data)
        \<and> fb_calls (handleSearchResponse_fb s err data)
          = [Fb_sendTypingOff s, Fb_sendTextMessage s err]
        \<and> \<not> threw (handleSearchResponse_fb s err data))"
  by (simp add: callback_defs send_defs)

text \<open>
  A search that fails with "Geen resultaten".
\<close>

theorem typing_off_first_witness:
  "sends (handleSearchResponse ''u1'' (Some ''Geen resultaten'') None)
     = [Sender_action ''u1'' ''typing_off'',
        Message ''u1'' (Text_message (Some ''Geen resultaten'') ''DEVELOPER_DEFINED_METADATA'')]
   \<and> \<not> threw (handleSearchResponse ''u1'' (Some ''Geen resultaten'') None)
   \<and> fb_calls (handleSearchResponse_fb ''u1'' (Some ''Geen resultaten'') None)
     = [Fb_sendTypingOff ''u1'', Fb_sendTextMessage ''u1'' (Some ''Geen resultaten'')]"
  using typing_off_first [of "''u1''" "Some ''Geen resultaten''" None]
  by (simp add: truthy_str_def)

lemma counter_random_contract: "lodash_contract counter_random"
proof -
  have "lower \<le> lower + g mod (upper - lower + 1) \<and> lower + g mod (upper - lower + 1) \<le> upper"
    if "lower \<le> upper" for lower upper g :: int
  proof -
    have "0 < upper - lower + 1" using that by simp
    then have "0 \<le> g mod (upper - lower + 1)" "g mod (upper - lower + 1) < upper - lower + 1"
      by (rule pos_mod_sign, rule pos_mod_bound)
    then show ?thesis by linarith
  qed
  then show ?thesis
    by (simp add: lodash_contract_def counter_random_def)
qed

text \<open>
  Claim C2. When a search of the message path completes without error with a result
  of type \<^verbatim>\<open>images\<close>, whatever its collection field, the callback sends (after the
  typing-off action) exactly the caption "Je gaat zo zien: label, description" and then
  the image, and registers exactly two timers, both in its own run so that neither waits
  for the other: the social feedback after 4000 ms and the link to the Wikidata page
  after 3000 ms. When it fires, the social feedback sends one text with the results of
  \<^verbatim>\<open>_.random(8, 50)\<close> and \<^verbatim>\<open>_.random(2, 4)\<close>, two successive draws, which lie in
  \<open>[8, 50]\<close> and \<open>[2, 4]\<close> by the contract of lodash; the link fires as one button
  message. No timer or send concerns the collection.
\<close>

theorem images_message_path:
  assumes "\<not> truthy_str err" and "sr_type d = ''images''" and "sr_images d = Some im"
  shows "sends (handleSearchResponse s err (Some d)) =
           [Sender_action s ''typing_off'',
            Message s (Text_message
              (Some (''Je gaat zo zien: '' @ tpl (ir_label im) @ '', '' @ tpl (ir_description im)))
              ''DEVELOPER_DEFINED_METADATA''),
            Message s (Image_attachment (tpl (ir_image im) @ ''?width=800''))]
         \<and> timers (handleSearchResponse s err (Some d)) =
           [(Social_feedback s, 4000), (Wikidata_link s im, 3000)]
         \<and> \<not> threw (handleSearchResponse s err (Some d))
         \<and> run_task random g (Social_feedback s) =
           (let (a, g1) = random 8 50 g; (b, g2) = random 2 4 g1
            in ([Call_send_api (Message s (Text_message
                   (Some (show_int a @ '' mensen zagen deze afbeelding ook, '' @ show_int b
                          @ '' mensen kijken op dit moment''))
                   ''DEVELOPER_DEFINED_METADATA''))], g2))
         \<and> (lodash_contract random \<longrightarrow>
              8 \<le> fst (random 8 50 g) \<and> fst (random 8 50 g) \<le> 50
              \<and> 2 \<le> fst (random 2 4 (snd (random 8 50 g)))
              \<and> fst (random 2 4 (snd (random 8 50 g))) \<le> 4)
         \<and> run_task random g (Wikidata_link s im) =
           ([Call_send_api (Message s (Button_template ''Wil je meer weten?''
               [Web_url_button (''http://www.wikidata.org/wiki/'' @ tpl (ir_id im))
                  ''Lees verder'']))], g)
         \<and> fb_calls (handleSearchResponse_fb s err (Some d)) =
           [Fb_sendTypingOff s,
            Fb_sendTextMessage s
              (Some (''Je gaat zo zien: '' @ tpl (ir_label im) @ '', '' @ tpl (ir_description im))),
            Fb_sendImageMessage s (ir_image im)]
         \<and> timers (handleSearchResponse_fb s err (Some d)) =
           [(Wikidata_link s im, 3000), (Social_feedback s, 4000)]
         \<and> run_task_fb random g (Social_feedback s) =
           (let (a, g1) = random 8 50 g; (b, g2) = random 2 4 g1
            in ([Fb (Fb_sendTextMessage s
                   (Some (show_int a @ '' mensen zagen deze afbeelding ook, '' @ show_int b
                          @ '' mensen kijken op dit moment'')))], g2))
         \<and> run_task_fb random g (Wikidata_link s im) =
           ([Fb (Fb_sendURL s (''http://www.wikidata.org/wiki/'' @ tpl (ir_id im)))], g)"
proof -
  have range: "lodash_contract random \<longrightarrow>
              8 \<le> fst (random 8 50 g) \<and> fst (random 8 50 g) \<le> 50
              \<and> 2 \<le> fst (random 2 4 (snd (random 8 50 g)))
              \<and> fst (random 2 4 (snd (random 8 50 g))) \<le> 4"
    by (simp add: lodash_contract_def)
  show ?thesis
    using assms range
    by (simp add: callback_defs send_defs run_task_def run_task_fb_def social_feedback_text_def)
qed

text \<open>
  The result of the specification's scenario: id Q42, no collection.
\<close>

theorem images_message_path_witness:
  "sends (handleSearchResponse ''u1'' None (Some (images_result q42))) =
     [Sender_action ''u1'' ''typing_off'',
      Message ''u1'' (Text_message (Some ''Je gaat zo zien: L, D'') ''DEVELOPER_DEFINED_METADATA''),
      Message ''u1'' (Image_attachment ''http://x/y.png?width=800'')]
   \<and> timers (handleSearchResponse ''u1'' None (Some (images_result q42))) =
     [(Social_feedback ''u1'', 4000), (Wikidata_link ''u1'' q42, 3000)]
   \<and> timers (handleSearchResponse_fb ''u1'' None (Some (images_result q42))) =
     [(Wikidata_link ''u1'' q42, 3000), (Social_feedback ''u1'', 4000)]
   \<and> run_task counter_random 15 (Social_feedback ''u1'') =
     ([Call_send_api (Message ''u1'' (Text_message
         (Some ''23 mensen zagen deze afbeelding ook, 3 mensen kijken op dit moment'')
         ''DEVELOPER_DEFINED_METADATA''))], 17)
   \<and> run_task counter_random 15 (Wikidata_link ''u1'' q42) =
     ([Call_send_api (Message ''u1'' (Button_template ''Wil je meer weten?''
         [Web_url_button ''http://www.wikidata.org/wiki/Q42'' ''Lees verder'']))], 15)"
  using images_message_path [of None "images_result q42" q42 "''u1''" counter_random 15]
    counter_random_contract
  by (simp add: images_result_def q42_def truthy_str_def tpl_def counter_random_def
      show_int_def digit_def)

text \<open>
  Claim C6. When a search of the postback path completes without error with a result
  of type \<^verbatim>\<open>images\<close> whose collection is present (a non-empty string), the callback
  registers, besides the social feedback, exactly one timer of 5000 ms. When it fires it
  sends exactly three messages: the text naming the collection, the link (to the
  result's own URL if present, else to its Wikidata page) and one postback button whose
  payload is the author field of the result.
\<close>

theorem collection_followup:
  assumes "\<not> truthy_str err" and "sr_type d = ''images''" and "sr_images d = Some im"
    and "truthy_str (ir_collection im)"
  shows "timers (paintingsCallback s err (Some d)) =
           [(Social_feedback s, 4000), (Collection_followup s im, 5000)]
         \<and> run_task random g (Collection_followup s im) =
           ([Call_send_api (Message s (Text_message
               (Some (''Dit kun je trouwens zien in de collectie van '' @ tpl (ir_collection im)))
               ''DEVELOPER_DEFINED_METADATA'')),
             Call_send_api (Message s (Button_template ''Wil je meer weten?''
               [Web_url_button
                  (if truthy_str (ir_url im) then tpl (ir_url im)
                   else ''http://www.wikidata.org/wiki/'' @ tpl (ir_id im))
                  ''Lees verder''])),
             Call_send_api (Message s (Button_template ''Nog een werk van deze schilder?''
               [Postback_button ''Ja, leuk!'' (ir_author im)]))], g)
         \<and> timers (paintingsCallback_fb s err (Some d)) =
           [(Social_feedback s, 4000), (Collection_followup s im, 5000)]
         \<and> run_task_fb random g (Collection_followup s im) =
           ([Fb (Fb_sendTextMessage s
               (Some (''Dit kun je trouwens zien in de collectie van '' @ tpl (ir_collection im)))),
             Fb (Fb_sendURL s
               (if truthy_str (ir_url im) then tpl (ir_url im)
                else ''http://www.wikidata.org/wiki/'' @ tpl (ir_id im))),
             Fb (Fb_sendButtonMessage s
               (Some \<lparr>bt_text = ''Nog een werk van deze schilder?'',
                      bt_data = [\<lparr>bs_title = ''Ja, leuk!'', bs_payload = ir_author im\<rparr>]\<rparr>))], g)"
  using assms
  by (simp add: callback_defs send_defs run_task_def run_task_fb_def)

text \<open>
  A painting of the collection of the Rijksmuseum.
\<close>

theorem collection_followup_witness:
  "timers (paintingsCallback ''u1'' None (Some (images_result nachtwacht))) =
     [(Social_feedback ''u1'', 4000), (Collection_followup ''u1'' nachtwacht, 5000)]
   \<and> sends (fst (run_task counter_random 0 (Collection_followup ''u1'' nachtwacht))) =
     [Message ''u1'' (Text_message
        (Some ''Dit kun je trouwens zien in de collectie van Rijksmuseum'')
        ''DEVELOPER_DEFINED_METADATA''),
      Message ''u1'' (Button_template ''Wil je meer weten?''
        [Web_url_button ''http://www.wikidata.org/wiki/Q219831'' ''Lees verder'']),
      Message ''u1'' (Button_template ''Nog een werk van deze schilder?''
        [Postback_button ''Ja, leuk!'' (Some ''Q5598'')])]"
  using collection_followup [of None "images_result nachtwacht" nachtwacht "''u1''" counter_random 0]
  by (simp add: images_result_def nachtwacht_def truthy_str_def tpl_def)

text \<open>
  Claim C10. \<^verbatim>\<open>sendImageMessage\<close> sends the URL it is given with
  \<^verbatim>\<open>?width=800\<close> appended, whatever the URL contains. Both completion callbacks send
  an image only for a result of type \<^verbatim>\<open>images\<close>, and then exactly one, whose URL is
  the image field of the result with that suffix.
\<close>

theorem image_url_suffix:
  "sends (sendImageMessage r (Some u)) = [Message r (Image_attachment (u @ ''?width=800''))]
   \<and> image_urls (handleSearchResponse s err data) =
       (case data of
          None \<Rightarrow> []
        | Some d \<Rightarrow>
            (case sr_images d of
               None \<Rightarrow> []
             | Some im \<Rightarrow>
                 if \<not> truthy_str err \<and> sr_type d = ''images''
                 then [tpl (ir_image im) @ ''?width=800''] else []))
   \<and> image_urls (paintingsCallback s err data) =
       (case data of
          None \<Rightarrow> []
        | Some d \<Rightarrow>
            (case sr_images d of
               None \<Rightarrow> []
             | Some im \<Rightarrow>
                 if \<not> truthy_str err \<and> sr_type d = ''images''
                 then [tpl (ir_image im) @ ''?width=800''] else []))"
  by (auto simp: callback_defs send_defs tpl_def split: option.splits)

text \<open>
  An image URL that already has a query string.
\<close>

theorem image_url_suffix_witness:
  "image_urls (handleSearchResponse ''u1'' None (Some (images_result nachtwacht)))
     = [''http://x/n.jpg?download?width=800'']
   \<and> image_urls (paintingsCallback ''u1'' None (Some (images_result nachtwacht)))
     = [''http://x/n.jpg?download?width=800'']"
  using image_url_suffix [of "''u1''" "''u''" "''u1''" None "Some (images_result nachtwacht)"]
  by (simp add: images_result_def nachtwacht_def truthy_str_def tpl_def)

subsection \<open>The response of the webhook\<close>

lemma dispatch_fb_no_throw: "\<not> threw (dispatch_fb e)"
  by (auto simp: dispatch_fb_def truthy_obj_def receivedMessage_fb_def receivedPostback_fb_def
      Let_def split: option.splits)

lemma dispatch_no_response: "responses (dispatch e) = []"
  by (auto simp: dispatch_def truthy_obj_def receivedMessage_def receivedAuthentication_def
      receivedDeliveryConfirmation_def receivedPostback_def receivedMessageRead_def
      receivedAccountLink_def send_defs responses_append Let_def split: option.splits)

lemma dispatch_fb_no_response: "responses (dispatch_fb e) = []"
  by (auto simp: dispatch_fb_def truthy_obj_def receivedMessage_fb_def receivedPostback_fb_def
      Let_def split: option.splits)

lemma responses_concat: "(\<And>x. responses (f x) = []) \<Longrightarrow> responses (concat (map f xs)) = []"
  by (induction xs) (auto simp: responses_append)

lemma concat_map_events:
  "concat (map (\<lambda>pageEntry. concat (map f (messaging pageEntry))) entries)
     = concat (map f (concat (map messaging entries)))"
  by (induction entries) auto

lemma for_each_entries:
  assumes "\<And>x. \<not> threw (f x)"
  shows "for_each (\<lambda>pageEntry. for_each f (messaging pageEntry)) entries
           = concat (map f (concat (map messaging entries)))"
proof -
  have inner: "for_each f xs = concat (map f xs)" for xs
    using assms by (rule for_each_concat)
  have "\<not> threw (concat (map f (messaging pageEntry)))" for pageEntry
    using assms by (rule threw_concat)
  then have "for_each (\<lambda>pageEntry. concat (map f (messaging pageEntry))) entries
           = concat (map (\<lambda>pageEntry. concat (map f (messaging pageEntry))) entries)"
    by (rule for_each_concat)
  then show ?thesis
    by (simp add: inner concat_map_events)
qed

lemma post_webhook_page:
  "object data = ''page'' \<Longrightarrow>
     post_webhook data = concat (map dispatch (all_events data)) @ [Send_status 200]"
  using for_each_entries [of dispatch "entry data", OF dispatch_no_throw]
    threw_concat [of dispatch "all_events data", OF dispatch_no_throw]
  by (simp add: post_webhook_def all_events_def then_do_append)

lemma post_webhook_fb_page:
  "object data = ''page'' \<Longrightarrow>
     post_webhook_fb data = concat (map dispatch_fb (all_events data)) @ [Send_status 200]"
  using for_each_entries [of dispatch_fb "entry data", OF dispatch_fb_no_throw]
    threw_concat [of dispatch_fb "all_events data", OF dispatch_fb_no_throw]
  by (simp add: post_webhook_fb_def all_events_def then_do_append)

text \<open>
  Claim C4. For a body whose \<^verbatim>\<open>object\<close> is \<^verbatim>\<open>page\<close>, the handler of
  \<^verbatim>\<open>POST /webhook\<close> runs the dispatcher on every event of every entry, in order, and
  then responds with status 200, once. Its trace holds the calls that start a search or
  a send, not their completions: in the run of the whole request every effect of a
  completion callback comes after the response. For any other \<^verbatim>\<open>object\<close> the handler
  does nothing: no response is sent.
\<close>

theorem webhook_response:
  "(object data = ''page'' \<longrightarrow>
      post_webhook data = concat (map dispatch (all_events data)) @ [Send_status 200]
      \<and> responses (post_webhook data) = [200]
      \<and> run_request answer data =
          concat (map dispatch (all_events data)) @ [Send_status 200]
          @ concat (map (complete answer) (concat (map dispatch (all_events data))))
      \<and> post_webhook_fb data = concat (map dispatch_fb (all_events data)) @ [Send_status 200]
      \<and> responses (post_webhook_fb data) = [200]
      \<and> run_request_fb answer data =
          concat (map dispatch_fb (all_events data)) @ [Send_status 200]
          @ concat (map (complete_fb answer) (concat (map dispatch_fb (all_events data)))))
   \<and> (object data \<noteq> ''page'' \<longrightarrow>
      post_webhook data = [] \<and> run_request answer data = []
      \<and> post_webhook_fb data = [] \<and> run_request_fb answer data = [])"
proof -
  have "responses (concat (map dispatch (all_events data))) = []"
    "responses (concat (map dispatch_fb (all_events data))) = []"
    by (rule responses_concat, rule dispatch_no_response,
        rule responses_concat, rule dispatch_fb_no_response)
  then show ?thesis
    by (simp add: post_webhook_page post_webhook_fb_page run_request_def run_request_fb_def
        responses_append complete_def complete_fb_def)
       (simp add: post_webhook_def post_webhook_fb_def)
qed

text \<open>
  A batch of two entries with three events, and the same batch under another object.
\<close>

theorem webhook_response_witness:
  "responses (post_webhook (page_body ''page'')) = [200]
   \<and> bot_calls (post_webhook (page_body ''page''))
       = [(SearchPainters ''rembrandt'', HandleSearchResponse ''u1'')]
   \<and> last (post_webhook (page_body ''page'')) = Send_status 200
   \<and> drop (length (post_webhook (page_body ''page''))) (run_request no_result (page_body ''page''))
       = [Console_log ''Turning typing indicator off'',
          Call_send_api (Sender_action ''u1'' ''typing_off''),
          Call_send_api (Message ''u1''
            (Text_message (Some ''Geen resultaten'') ''DEVELOPER_DEFINED_METADATA''))]
   \<and> post_webhook (page_body ''user'') = []
   \<and> post_webhook_fb (page_body ''user'') = []"
  using webhook_response [of "page_body ''page''" no_result]
    webhook_response [of "page_body ''user''" no_result]
  by (simp add: page_body_def all_events_def text_event_def echo_event_def
      ev_delivery_postback_def dispatch_def receivedMessage_def receivedDeliveryConfirmation_def
      send_defs string_prims complete_def run_callback_def no_result_def callback_defs Let_def)

end
